theory Spec2Isabelle
  imports Complex_Main
begin

section \<open>Data model of the frontend store (store/app-store.ts)\<close>

text \<open>
  JavaScript numbers are modelled as reals: the frontend only compares them and adds or
  subtracts the constant 5. NaN, the infinities and rounding are not modelled.
  A nullable field is an \<open>option\<close>, an optional field of an interface as well.
\<close>

datatype octave = Mandra | Madhya | Tara

record SwaramNote =
  note_start :: real
  note_end :: real
  swaram :: string
  octave :: octave
  gamakam :: "string option"
  note_confidence :: "real option"

datatype music_system = Carnatic | Hindustani

record RaagaInfo =
  name :: string
  raaga_type :: music_system
  confidence :: real
  arohana :: "string list option"
  avarohana :: "string list option"
  characteristics :: "string option"

record LyricsData =
  lyric_text :: string
  lyric_start :: real
  lyric_end :: real

text \<open>The browser's File object, with the three properties the upload component reads.\<close>

record File =
  file_name :: string
  file_type :: string
  file_size :: nat

record AppState =
  audioFile :: "File option"
  audioUrl :: "string option"
  isTranscribing :: bool
  transcriptionProgress :: real
  transcriptionResult :: "SwaramNote list option"
  raagaInfo :: "RaagaInfo option"
  lyrics :: "LyricsData list option"
  currentTime :: real
  isPlaying :: bool
  duration :: real

text \<open>The initial state of \<open>useAppStore\<close> (app-store.ts, lines 84 to 93).\<close>

definition initial_state :: AppState where
  "initial_state =
     \<lparr> audioFile = None, audioUrl = None, isTranscribing = False,
       transcriptionProgress = 0, transcriptionResult = None, raagaInfo = None,
       lyrics = None, currentTime = 0, isPlaying = False, duration = 0 \<rparr>"

text \<open>
  The actions. Zustand's \<open>set(partial)\<close> merges the given keys into the state and
  leaves the others as they are: a record update.
\<close>

definition setAudioFile :: "File option \<Rightarrow> AppState \<Rightarrow> AppState" where
  "setAudioFile file s = s\<lparr>audioFile := file\<rparr>"

definition setAudioUrl :: "string option \<Rightarrow> AppState \<Rightarrow> AppState" where
  "setAudioUrl url s = s\<lparr>audioUrl := url\<rparr>"

definition setTranscribing :: "bool \<Rightarrow> AppState \<Rightarrow> AppState" where
  "setTranscribing b s = s\<lparr>isTranscribing := b\<rparr>"

definition setTranscriptionProgress :: "real \<Rightarrow> AppState \<Rightarrow> AppState" where
  "setTranscriptionProgress progress s = s\<lparr>transcriptionProgress := progress\<rparr>"

definition setTranscriptionResult :: "SwaramNote list option \<Rightarrow> AppState \<Rightarrow> AppState" where
  "setTranscriptionResult result s = s\<lparr>transcriptionResult := result\<rparr>"

definition setRaagaInfo :: "RaagaInfo option \<Rightarrow> AppState \<Rightarrow> AppState" where
  "setRaagaInfo info s = s\<lparr>raagaInfo := info\<rparr>"

definition setLyrics :: "LyricsData list option \<Rightarrow> AppState \<Rightarrow> AppState" where
  "setLyrics ls s = s\<lparr>lyrics := ls\<rparr>"

definition setCurrentTime :: "real \<Rightarrow> AppState \<Rightarrow> AppState" where
  "setCurrentTime time s = s\<lparr>currentTime := time\<rparr>"

definition setIsPlaying :: "bool \<Rightarrow> AppState \<Rightarrow> AppState" where
  "setIsPlaying b s = s\<lparr>isPlaying := b\<rparr>"

definition setDuration :: "real \<Rightarrow> AppState \<Rightarrow> AppState" where
  "setDuration d s = s\<lparr>duration := d\<rparr>"

definition reset :: "AppState \<Rightarrow> AppState" where
  "reset s =
     s\<lparr> audioFile := None, audioUrl := None, isTranscribing := False,
       transcriptionProgress := 0, transcriptionResult := None, raagaInfo := None,
       lyrics := None, currentTime := 0, isPlaying := False, duration := 0 \<rparr>"

section \<open>The audio player's skip controls (components/audio-player.tsx)\<close>

text \<open>
  \<open>audioRef.current\<close> is the audio element or null; the skip handlers read and assign
  its \<open>currentTime\<close>. \<open>skipForward\<close> takes the bound from the store's \<open>duration\<close>.
\<close>

record HTMLAudioElement =
  el_currentTime :: real

definition skipBackward :: "HTMLAudioElement option \<Rightarrow> HTMLAudioElement option" where
  "skipBackward audioRef =
     (case audioRef of
        None \<Rightarrow> None
      | Some audio \<Rightarrow> Some (audio\<lparr>el_currentTime := max 0 (el_currentTime audio - 5)\<rparr>))"

definition skipForward :: "AppState \<Rightarrow> HTMLAudioElement option \<Rightarrow> HTMLAudioElement option" where
  "skipForward store audioRef =
     (case audioRef of
        None \<Rightarrow> None
      | Some audio \<Rightarrow>
          Some (audio\<lparr>el_currentTime := min (duration store) (el_currentTime audio + 5)\<rparr>))"

section \<open>Playback-synchronised lookups (swaram-display.tsx, lyrics-display.tsx)\<close>

text \<open>
  \<open>Array.prototype.findIndex\<close>: the index of the first element that satisfies the
  predicate, or \<open>-1\<close> when there is none.
\<close>

fun findIndex_from :: "nat \<Rightarrow> ('a \<Rightarrow> bool) \<Rightarrow> 'a list \<Rightarrow> int" where
  "findIndex_from k p [] = -1"
| "findIndex_from k p (x # xs) = (if p x then int k else findIndex_from (Suc k) p xs)"

definition findIndex :: "('a \<Rightarrow> bool) \<Rightarrow> 'a list \<Rightarrow> int" where
  "findIndex p xs = findIndex_from 0 p xs"

text \<open>
  \<open>getCurrentSwaram\<close> and \<open>getCurrentLyrics\<close> close over the store's
  \<open>transcriptionResult\<close> (or \<open>lyrics\<close>) and \<open>currentTime\<close>; the result is
  \<open>number | null\<close>.
\<close>

definition getCurrentSwaram :: "AppState \<Rightarrow> int option" where
  "getCurrentSwaram store =
     (case transcriptionResult store of
        None \<Rightarrow> None
      | Some notes \<Rightarrow>
          (let index = findIndex
                 (\<lambda>note. currentTime store \<ge> note_start note \<and> currentTime store \<le> note_end note)
                 notes
           in if index \<ge> 0 then Some index else None))"

definition getCurrentLyrics :: "AppState \<Rightarrow> int option" where
  "getCurrentLyrics store =
     (case lyrics store of
        None \<Rightarrow> None
      | Some ls \<Rightarrow>
          (let index = findIndex
                 (\<lambda>lyric. currentTime store \<ge> lyric_start lyric \<and> currentTime store \<le> lyric_end lyric)
                 ls
           in if index \<ge> 0 then Some index else None))"

section \<open>Result cards (raaga-info.tsx, swaram-display.tsx)\<close>

text \<open>
  What a component renders: the placeholder card with its message, the raaga card, or the
  grid of swaram cards with the index of the highlighted one.
\<close>

datatype card =
    Placeholder string
  | RaagaCard RaagaInfo
  | SwaramGrid "SwaramNote list" "int option"

definition RaagaInfoDisplay :: "AppState \<Rightarrow> card" where
  "RaagaInfoDisplay store =
     (case raagaInfo store of
        None \<Rightarrow> Placeholder ''Raaga information will appear after transcription''
      | Some info \<Rightarrow> RaagaCard info)"

definition SwaramDisplay :: "AppState \<Rightarrow> card" where
  "SwaramDisplay store =
     (case transcriptionResult store of
        None \<Rightarrow> Placeholder ''Transcribed swarams will appear here''
      | Some [] \<Rightarrow> Placeholder ''Transcribed swarams will appear here''
      | Some (n # ns) \<Rightarrow> SwaramGrid (n # ns) (getCurrentSwaram store))"

section \<open>The transcription request (app/page.tsx, handleTranscribe)\<close>

text \<open>
  The body of the backend's answer, each field possibly null, and the error axios throws,
  with the two strings the handler reads from it (\<open>error.response?.data?.detail\<close> and
  \<open>error.message\<close>).
\<close>

record TranscriptionResponse =
  resp_swarams :: "SwaramNote list option"
  resp_raaga :: "RaagaInfo option"
  resp_lyrics :: "LyricsData list option"

record AxiosError =
  err_detail :: "string option"
  err_message :: "string option"

datatype toast = ToastSuccess string | ToastError string

text \<open>\<open>a || b || c\<close> on strings: the first one that is neither missing nor empty.\<close>

definition errorMessage :: "AxiosError \<Rightarrow> string" where
  "errorMessage error =
     (case err_detail error of
        Some (c # cs) \<Rightarrow> c # cs
      | _ \<Rightarrow>
          (case err_message error of
             Some (c # cs) \<Rightarrow> c # cs
           | _ \<Rightarrow> ''Failed to transcribe audio. Please try again.''))"

text \<open>
  The handler threads the store and the toasts shown so far. \<open>post\<close> stands for the
  request to \<open>/api/transcribe\<close>: it answers with a response body or throws. A JavaScript
  array or object is truthy (an empty array too), null is not, so each \<open>if (response.data.x)\<close>
  is a case on \<open>Some\<close>. The state is the one at the moment the handler returns: the
  progress timers (the interval and the delayed reset to 0) are left out.
\<close>

definition handleTranscribe ::
  "(File \<Rightarrow> AxiosError + TranscriptionResponse) \<Rightarrow> AppState \<times> toast list
     \<Rightarrow> AppState \<times> toast list" where
  "handleTranscribe post st =
     (case st of (s, toasts) \<Rightarrow>
        (case audioFile s of
           None \<Rightarrow> (s, toasts @ [ToastError ''Please upload an audio file first''])
         | Some file \<Rightarrow>
             (let s1 = setTranscriptionProgress 0 (setTranscribing True s);
                  (s2, toasts2) =
                    (case post file of
                       Inr response \<Rightarrow>
                         (let s3 = setTranscriptionProgress 100 s1;
                              s4 = (case resp_swarams response of
                                      Some sw \<Rightarrow> setTranscriptionResult (Some sw) s3
                                    | None \<Rightarrow> s3);
                              s5 = (case resp_raaga response of
                                      Some r \<Rightarrow> setRaagaInfo (Some r) s4
                                    | None \<Rightarrow> s4);
                              s6 = (case resp_lyrics response of
                                      Some ls \<Rightarrow> setLyrics (Some ls) s5
                                    | None \<Rightarrow> s5)
                          in (s6, toasts @
                                [case resp_swarams response of
                                   Some (n # ns) \<Rightarrow>
                                     ToastSuccess ''Transcription completed successfully!''
                                 | _ \<Rightarrow> ToastSuccess
                                     ''Transcription completed, but no swarams were detected in the audio.'']))
                     | Inl error \<Rightarrow>
                         (setTranscriptionProgress 0 s1,
                          toasts @ [ToastError (errorMessage error)]))
              in (setTranscribing False s2, toasts2))))"

section \<open>The Raaga Matcher (backend/api/raaga_detector.py, not among the sources)\<close>

text \<open>
  Modelled from the spec: a catalog entry (RaagaCandidate of section 3); the catalog itself,
  \<open>RAAGA_DATABASE\<close> of raaga_detector.py, is missing and is a parameter of \<open>detectRaaga\<close>.
  Scale degrees are the strings of the response format.
\<close>

record RaagaCandidate =
  cand_name :: string
  cand_system :: music_system
  cand_arohana :: "string list"
  cand_avarohana :: "string list"
  cand_characteristics :: string

text \<open>
  Modelled from the spec: the failure of a division of raaga_detector.py, which is missing;
  a fraction or ratio of section 4.4 whose denominator is zero raises.
\<close>

datatype py_error = ZeroDivisionError

text \<open>
  Modelled from the spec: the division behind every fraction and ratio of section 4.4
  (raaga_detector.py is missing), failing on a zero denominator as Python's does.
\<close>

definition py_div :: "real \<Rightarrow> real \<Rightarrow> py_error + real" where
  "py_div a b = (if b = 0 then Inl ZeroDivisionError else Inr (a / b))"

text \<open>
  Modelled from the spec: step 1 of section 4.4 (raaga_detector.py is missing), the scale
  degrees used, each once, in the order of their first occurrence. Only the \<open>swaram\<close>
  field of a note is read.
\<close>

fun first_occurrences :: "string list \<Rightarrow> string list \<Rightarrow> string list" where
  "first_occurrences seen [] = seen"
| "first_occurrences seen (x # xs) =
     (if x \<in> set seen then first_occurrences seen xs else first_occurrences (seen @ [x]) xs)"

text \<open>
  Modelled from the spec: the observed first-occurrence order of section 4.4, step 1
  (raaga_detector.py is missing), started with nothing seen.
\<close>

definition observed_degrees :: "SwaramNote list \<Rightarrow> string list" where
  "observed_degrees ns = first_occurrences [] (map swaram ns)"

text \<open>
  Modelled from the spec: the candidate's declared scale degrees of section 4.4, step 2(a)
  (raaga_detector.py is missing), the union of arohana and avarohana, each degree once.
\<close>

definition declared_degrees :: "RaagaCandidate \<Rightarrow> string list" where
  "declared_degrees cand = remdups (cand_arohana cand @ cand_avarohana cand)"

text \<open>
  Modelled from the spec: the set-overlap score of section 4.4, step 2(a) (raaga_detector.py
  is missing): the number of declared degrees that were observed, over the declared degrees
  plus the observed degrees the candidate does not declare (the symmetric penalty).
\<close>

definition overlapScore :: "string list \<Rightarrow> RaagaCandidate \<Rightarrow> py_error + real" where
  "overlapScore observed cand =
     (let declared = declared_degrees cand;
          matched = length (filter (\<lambda>d. d \<in> set observed) declared);
          foreign = length (filter (\<lambda>d. d \<notin> set declared) observed)
      in py_div (real matched) (real (length declared + foreign)))"

text \<open>
  Modelled from the spec: the length of a longest common subsequence, for the pattern score
  of section 4.4, step 2(b) (raaga_detector.py is missing).
\<close>

fun lcs :: "string list \<Rightarrow> string list \<Rightarrow> nat" where
  "lcs [] ys = 0"
| "lcs (x # xs) [] = 0"
| "lcs (x # xs) (y # ys) =
     (if x = y then Suc (lcs xs ys) else max (lcs (x # xs) ys) (lcs xs (y # ys)))"

text \<open>
  Modelled from the spec: the longest-common-subsequence ratio of section 4.4, step 2(b)
  (raaga_detector.py is missing), the length of the subsequence over the length of the
  longer of the two sequences.
\<close>

definition lcs_ratio :: "string list \<Rightarrow> string list \<Rightarrow> py_error + real" where
  "lcs_ratio observed pattern =
     py_div (real (lcs observed pattern)) (real (max (length observed) (length pattern)))"

text \<open>
  Modelled from the spec: the pattern score of section 4.4, step 2(b) (raaga_detector.py is
  missing), the ratio against the arohana and against the reversed avarohana, the better of
  the two.
\<close>

definition patternScore :: "string list \<Rightarrow> RaagaCandidate \<Rightarrow> py_error + real" where
  "patternScore observed cand =
     (case lcs_ratio observed (cand_arohana cand) of
        Inl e \<Rightarrow> Inl e
      | Inr up \<Rightarrow>
          (case lcs_ratio observed (rev (cand_avarohana cand)) of
             Inl e \<Rightarrow> Inl e
           | Inr down \<Rightarrow> Inr (max up down)))"

text \<open>
  Modelled from the spec: step 3 of section 4.4 (raaga_detector.py is missing),
  \<open>score = 0.6 * overlapScore + 0.4 * patternScore\<close>.
\<close>

definition combinedScore :: "string list \<Rightarrow> RaagaCandidate \<Rightarrow> py_error + real" where
  "combinedScore observed cand =
     (case overlapScore observed cand of
        Inl e \<Rightarrow> Inl e
      | Inr ov \<Rightarrow>
          (case patternScore observed cand of
             Inl e \<Rightarrow> Inl e
           | Inr pat \<Rightarrow> Inr (6/10 * ov + 4/10 * pat)))"

text \<open>
  Modelled from the spec: step 4 of section 4.4 (raaga_detector.py is missing), one pass
  over the catalog that keeps the best candidate so far; a later candidate replaces it only
  with a strictly greater score, so the first declared wins a tie.
\<close>

fun select_best ::
  "string list \<Rightarrow> (RaagaCandidate \<times> real) option \<Rightarrow> RaagaCandidate list
     \<Rightarrow> py_error + (RaagaCandidate \<times> real) option" where
  "select_best observed best [] = Inr best"
| "select_best observed best (cand # rest) =
     (case combinedScore observed cand of
        Inl e \<Rightarrow> Inl e
      | Inr score \<Rightarrow>
          select_best observed
            (case best of
               None \<Rightarrow> Some (cand, score)
             | Some (b, bs) \<Rightarrow> if score > bs then Some (cand, score) else Some (b, bs))
            rest)"

text \<open>
  Modelled from the spec: the RaagaMatch of section 3 in the response format of section 6
  (raaga_detector.py is missing): the candidate's fields and the score as confidence.
\<close>

definition to_match :: "RaagaCandidate \<Rightarrow> real \<Rightarrow> RaagaInfo" where
  "to_match cand score =
     \<lparr> name = cand_name cand, raaga_type = cand_system cand, confidence = score,
       arohana = Some (cand_arohana cand), avarohana = Some (cand_avarohana cand),
       characteristics = Some (cand_characteristics cand) \<rparr>"

text \<open>
  Modelled from the spec: \<open>detectRaaga\<close> of sections 4.4 and 6 (raaga_detector.py is
  missing). An empty note sequence is answered with no match before any score is
  computed; otherwise the best candidate is reported when its score is at least 0.30.
  Scores are exact reals, not floating-point numbers.
\<close>

definition detectRaaga ::
  "RaagaCandidate list \<Rightarrow> SwaramNote list \<Rightarrow> py_error + RaagaInfo option" where
  "detectRaaga catalog ns =
     (if ns = [] then Inr None
      else
        (case select_best (observed_degrees ns) None catalog of
           Inl e \<Rightarrow> Inl e
         | Inr None \<Rightarrow> Inr None
         | Inr (Some (cand, score)) \<Rightarrow>
             if score \<ge> 3/10 then Inr (Some (to_match cand score)) else Inr None))"

section \<open>Example data\<close>

text \<open>The two notes and the raaga of the API reference's example response.\<close>

definition api_example_notes :: "SwaramNote list" where
  "api_example_notes =
     [ \<lparr> note_start = 0, note_end = 1/2, swaram = ''Sa'', octave = Madhya,
         gamakam = Some ''kampitam'', note_confidence = Some (95/100) \<rparr>,
       \<lparr> note_start = 1/2, note_end = 1, swaram = ''Ri2'', octave = Madhya,
         gamakam = None, note_confidence = Some (88/100) \<rparr> ]"

definition mayamalavagowla :: RaagaCandidate where
  "mayamalavagowla =
     \<lparr> cand_name = ''Mayamalavagowla'', cand_system = Carnatic,
       cand_arohana = [''Sa'', ''Ri1'', ''Ga3'', ''Ma1'', ''Pa'', ''Da1'', ''Ni3'', ''Sa''],
       cand_avarohana = [''Sa'', ''Ni3'', ''Da1'', ''Pa'', ''Ma1'', ''Ga3'', ''Ri1'', ''Sa''],
       cand_characteristics = ''A fundamental raaga used for teaching...'' \<rparr>"

definition mayamalavagowla_info :: RaagaInfo where
  "mayamalavagowla_info =
     \<lparr> name = ''Mayamalavagowla'', raaga_type = Carnatic, confidence = 85/100,
       arohana = Some [''Sa'', ''Ri1'', ''Ga3'', ''Ma1'', ''Pa'', ''Da1'', ''Ni3'', ''Sa''],
       avarohana = Some [''Sa'', ''Ni3'', ''Da1'', ''Pa'', ''Ma1'', ''Ga3'', ''Ri1'', ''Sa''],
       characteristics = Some ''A fundamental raaga used for teaching...'' \<rparr>"

text \<open>A half-second note of a given degree and octave, and an ascent through seven degrees.\<close>

definition held_note :: "octave \<Rightarrow> real \<Rightarrow> string \<Rightarrow> SwaramNote" where
  "held_note oct t sw =
     \<lparr> note_start = t, note_end = t + 1/2, swaram = sw, octave = oct,
       gamakam = None, note_confidence = Some 1 \<rparr>"

definition ascent_notes :: "octave \<Rightarrow> SwaramNote list" where
  "ascent_notes oct =
     [held_note oct 0 ''Sa'', held_note oct (1/2) ''Ri1'', held_note oct 1 ''Ga3'',
      held_note oct (3/2) ''Ma1'', held_note oct 2 ''Pa'', held_note oct (5/2) ''Da1'',
      held_note oct 3 ''Ni3'']"

text \<open>
  A store that already holds the results of an earlier transcription, with a second file
  uploaded, and the backend's answer for a recording without any pitch.
\<close>

definition second_upload :: File where
  "second_upload = \<lparr> file_name = ''silence.wav'', file_type = ''audio/wav'', file_size = 1024 \<rparr>"

definition store_after_first_transcription :: AppState where
  "store_after_first_transcription =
     setRaagaInfo (Some mayamalavagowla_info)
       (setTranscriptionResult (Some api_example_notes)
         (setAudioUrl (Some ''blob:second'')
           (setAudioFile (Some second_upload) initial_state)))"

definition silent_response :: TranscriptionResponse where
  "silent_response = \<lparr> resp_swarams = Some [], resp_raaga = None, resp_lyrics = None \<rparr>"

section \<open>Facts about findIndex\<close>

lemma findIndex_from_range:
  "findIndex_from k p xs = -1
   \<or> (int k \<le> findIndex_from k p xs \<and> findIndex_from k p xs < int k + int (length xs))"
  by (induction xs arbitrary: k) force+

lemma findIndex_from_iff:
  "findIndex_from k p xs = int k + int i
     \<longleftrightarrow> (i < length xs \<and> p (xs ! i) \<and> (\<forall>j<i. \<not> p (xs ! j)))"
proof (induction xs arbitrary: k i)
  case Nil
  then show ?case by simp
next
  case (Cons x xs)
  show ?case
  proof (cases i)
    case 0
    have "findIndex_from (Suc k) p xs \<noteq> int k"
      using findIndex_from_range [of "Suc k" p xs] by auto
    with 0 show ?thesis by auto
  next
    case (Suc i')
    have "findIndex_from (Suc k) p xs = int (Suc k) + int i'
          \<longleftrightarrow> (i' < length xs \<and> p (xs ! i') \<and> (\<forall>j<i'. \<not> p (xs ! j)))"
      by (rule Cons.IH)
    moreover have "(\<forall>j<Suc i'. \<not> p ((x # xs) ! j)) \<longleftrightarrow> (\<not> p x \<and> (\<forall>j<i'. \<not> p (xs ! j)))"
      by (auto simp: less_Suc_eq_0_disj)
    ultimately show ?thesis using Suc by auto
  qed
qed

lemma findIndex_from_none:
  "findIndex_from k p xs = -1 \<longleftrightarrow> (\<forall>x\<in>set xs. \<not> p x)"
  by (induction xs arbitrary: k) auto

lemma findIndex_first:
  "findIndex p xs = int i \<longleftrightarrow> (i < length xs \<and> p (xs ! i) \<and> (\<forall>j<i. \<not> p (xs ! j)))"
  using findIndex_from_iff [of 0 p xs i] by (simp add: findIndex_def)

lemma findIndex_none: "findIndex p xs = -1 \<longleftrightarrow> (\<forall>x\<in>set xs. \<not> p x)"
  by (simp add: findIndex_def findIndex_from_none)

lemma findIndex_sign: "findIndex p xs = -1 \<or> 0 \<le> findIndex p xs"
  using findIndex_from_range [of 0 p xs] by (auto simp: findIndex_def)

section \<open>The current-swaram lookup\<close>

lemma getCurrentSwaram_no_result:
  assumes "transcriptionResult store = None"
  shows "getCurrentSwaram store = None"
  using assms by (simp add: getCurrentSwaram_def)

lemma getCurrentSwaram_stored:
  assumes "transcriptionResult store = Some ns"
  shows "getCurrentSwaram store = Some (int i)
           \<longleftrightarrow> (i < length ns
                \<and> note_start (ns ! i) \<le> currentTime store
                \<and> currentTime store \<le> note_end (ns ! i)
                \<and> (\<forall>j<i. \<not> (note_start (ns ! j) \<le> currentTime store
                             \<and> currentTime store \<le> note_end (ns ! j))))"
    and "getCurrentSwaram store = None
           \<longleftrightarrow> (\<forall>n\<in>set ns. \<not> (note_start n \<le> currentTime store
                             \<and> currentTime store \<le> note_end n))"
    and "getCurrentSwaram store = Some k \<Longrightarrow> 0 \<le> k"
proof -
  let ?p = "\<lambda>note. currentTime store \<ge> note_start note \<and> currentTime store \<le> note_end note"
  have first: "findIndex ?p ns = int i
                 \<longleftrightarrow> (i < length ns \<and> ?p (ns ! i) \<and> (\<forall>j<i. \<not> ?p (ns ! j)))"
    by (rule findIndex_first)
  have none: "findIndex ?p ns = -1 \<longleftrightarrow> (\<forall>x\<in>set ns. \<not> ?p x)"
    by (rule findIndex_none)
  have sign: "findIndex ?p ns = -1 \<or> 0 \<le> findIndex ?p ns"
    by (rule findIndex_sign)
  have some: "getCurrentSwaram store = Some (int i) \<longleftrightarrow> findIndex ?p ns = int i"
    using assms by (auto simp: getCurrentSwaram_def Let_def)
  have null: "getCurrentSwaram store = None \<longleftrightarrow> findIndex ?p ns = -1"
    using assms sign by (auto simp: getCurrentSwaram_def Let_def)
  show "getCurrentSwaram store = Some (int i)
           \<longleftrightarrow> (i < length ns
                \<and> note_start (ns ! i) \<le> currentTime store
                \<and> currentTime store \<le> note_end (ns ! i)
                \<and> (\<forall>j<i. \<not> (note_start (ns ! j) \<le> currentTime store
                             \<and> currentTime store \<le> note_end (ns ! j))))"
    unfolding some first by auto
  show "getCurrentSwaram store = None
           \<longleftrightarrow> (\<forall>n\<in>set ns. \<not> (note_start n \<le> currentTime store
                             \<and> currentTime store \<le> note_end n))"
    unfolding null none by auto
  show "getCurrentSwaram store = Some k \<Longrightarrow> 0 \<le> k"
    using assms by (auto simp: getCurrentSwaram_def Let_def split: if_splits)
qed

text \<open>
  C1, as amended. In the frontend a note covers the playback time \<open>t\<close> when
  \<open>start \<le> t \<le> end\<close>: the end is inclusive. \<open>getCurrentSwaram\<close> returns null when no
  result is stored. When a note sequence is stored it returns the index of the first note of
  the sequence that covers \<open>t\<close>, never a negative number, and null exactly when no note
  covers \<open>t\<close>. So a time equal to the boundary shared by two consecutive notes selects the
  earlier of the two (when no note before it covers the time).
\<close>

theorem getCurrentSwaram_end_inclusive_first_match:
  "(transcriptionResult store = None \<longrightarrow> getCurrentSwaram store = None)
   \<and> (transcriptionResult store = Some ns \<longrightarrow>
        (getCurrentSwaram store = Some (int i)
            \<longleftrightarrow> (i < length ns
                 \<and> note_start (ns ! i) \<le> currentTime store
                 \<and> currentTime store \<le> note_end (ns ! i)
                 \<and> (\<forall>j<i. \<not> (note_start (ns ! j) \<le> currentTime store
                              \<and> currentTime store \<le> note_end (ns ! j)))))
      \<and> (\<forall>k. getCurrentSwaram store = Some k \<longrightarrow> 0 \<le> k)
      \<and> (getCurrentSwaram store = None
            \<longleftrightarrow> (\<forall>n\<in>set ns. \<not> (note_start n \<le> currentTime store
                              \<and> currentTime store \<le> note_end n)))
      \<and> (Suc i < length ns
            \<and> note_start (ns ! i) \<le> currentTime store
            \<and> note_end (ns ! i) = currentTime store
            \<and> note_start (ns ! Suc i) = currentTime store
            \<and> (\<forall>j<i. \<not> (note_start (ns ! j) \<le> currentTime store
                         \<and> currentTime store \<le> note_end (ns ! j)))
            \<longrightarrow> getCurrentSwaram store = Some (int i)))"
proof (intro conjI impI)
  assume "transcriptionResult store = None"
  then show "getCurrentSwaram store = None" by (rule getCurrentSwaram_no_result)
next
  assume stored: "transcriptionResult store = Some ns"
  show "getCurrentSwaram store = Some (int i)
            \<longleftrightarrow> (i < length ns
                 \<and> note_start (ns ! i) \<le> currentTime store
                 \<and> currentTime store \<le> note_end (ns ! i)
                 \<and> (\<forall>j<i. \<not> (note_start (ns ! j) \<le> currentTime store
                              \<and> currentTime store \<le> note_end (ns ! j))))"
    by (rule getCurrentSwaram_stored(1) [OF stored])
next
  assume stored: "transcriptionResult store = Some ns"
  show "\<forall>k. getCurrentSwaram store = Some k \<longrightarrow> 0 \<le> k"
    using getCurrentSwaram_stored(3) [OF stored] by blast
next
  assume stored: "transcriptionResult store = Some ns"
  show "getCurrentSwaram store = None
            \<longleftrightarrow> (\<forall>n\<in>set ns. \<not> (note_start n \<le> currentTime store
                              \<and> currentTime store \<le> note_end n))"
    by (rule getCurrentSwaram_stored(2) [OF stored])
next
  assume stored: "transcriptionResult store = Some ns"
    and boundary: "Suc i < length ns
            \<and> note_start (ns ! i) \<le> currentTime store
            \<and> note_end (ns ! i) = currentTime store
            \<and> note_start (ns ! Suc i) = currentTime store
            \<and> (\<forall>j<i. \<not> (note_start (ns ! j) \<le> currentTime store
                         \<and> currentTime store \<le> note_end (ns ! j)))"
  show "getCurrentSwaram store = Some (int i)"
    using boundary unfolding getCurrentSwaram_stored(1) [OF stored] by auto
qed

theorem getCurrentSwaram_end_inclusive_witness:
  "transcriptionResult initial_state = None
   \<and> getCurrentSwaram initial_state = None
   \<and> transcriptionResult (setCurrentTime (3/4) (setTranscriptionResult (Some api_example_notes) initial_state))
     = Some api_example_notes
   \<and> getCurrentSwaram (setCurrentTime (3/4) (setTranscriptionResult (Some api_example_notes) initial_state))
     = Some 1
   \<and> getCurrentSwaram (setCurrentTime 2 (setTranscriptionResult (Some api_example_notes) initial_state))
     = None"
proof -
  have empty: "transcriptionResult initial_state = None"
    by (simp add: initial_state_def)
  have inside: "getCurrentSwaram (setCurrentTime (3/4)
                  (setTranscriptionResult (Some api_example_notes) initial_state)) = Some 1"
    using getCurrentSwaram_end_inclusive_first_match
      [of "setCurrentTime (3/4) (setTranscriptionResult (Some api_example_notes) initial_state)"
          api_example_notes 1]
    by (simp add: setCurrentTime_def setTranscriptionResult_def initial_state_def
        api_example_notes_def)
  have after: "getCurrentSwaram (setCurrentTime 2
                  (setTranscriptionResult (Some api_example_notes) initial_state)) = None"
    using getCurrentSwaram_end_inclusive_first_match
      [of "setCurrentTime 2 (setTranscriptionResult (Some api_example_notes) initial_state)"
          api_example_notes 0]
    by (simp add: setCurrentTime_def setTranscriptionResult_def initial_state_def
        api_example_notes_def)
  show ?thesis
    using getCurrentSwaram_end_inclusive_first_match [of initial_state "[]" 0] empty inside after
    by (simp add: setCurrentTime_def setTranscriptionResult_def)
qed

text \<open>
  At \<open>t = 0.5\<close>, the end of the first example note and the start of the second, the
  end-exclusive rule gives the second note (index 1); the lookup returns the first.
\<close>

theorem getCurrentSwaram_shared_boundary_counterexample:
  "getCurrentSwaram (setCurrentTime (1/2) (setTranscriptionResult (Some api_example_notes) initial_state))
     = Some 0
   \<and> \<not> (1/2 < note_end (api_example_notes ! 0))
   \<and> note_start (api_example_notes ! 1) \<le> 1/2
   \<and> 1/2 < note_end (api_example_notes ! 1)"
  by (simp add: getCurrentSwaram_def findIndex_def setCurrentTime_def
      setTranscriptionResult_def initial_state_def api_example_notes_def)

lemma getCurrentLyrics_end_inclusive:
  "getCurrentLyrics (setCurrentTime 2 (setLyrics
      (Some [\<lparr>lyric_text = ''sa'', lyric_start = 0, lyric_end = 2\<rparr>,
             \<lparr>lyric_text = ''ri'', lyric_start = 2, lyric_end = 4\<rparr>]) initial_state)) = Some 0"
  by (simp add: getCurrentLyrics_def findIndex_def setCurrentTime_def setLyrics_def
      initial_state_def)

section \<open>Degenerate results in the frontend\<close>

lemma RaagaInfoDisplay_placeholder_iff:
  "RaagaInfoDisplay store = Placeholder ''Raaga information will appear after transcription''
     \<longleftrightarrow> raagaInfo store = None"
  by (simp add: RaagaInfoDisplay_def split: option.splits)

lemma SwaramDisplay_placeholder_iff:
  "SwaramDisplay store = Placeholder ''Transcribed swarams will appear here''
     \<longleftrightarrow> (transcriptionResult store = None \<or> transcriptionResult store = Some [])"
  by (simp add: SwaramDisplay_def split: option.splits list.splits)

lemma handleTranscribe_success_toast:
  assumes "audioFile s = Some upload" and "post upload = Inr response"
  shows "\<exists>msg. snd (handleTranscribe post (s, toasts)) = toasts @ [ToastSuccess msg]"
  using assms by (simp add: handleTranscribe_def Let_def split: option.splits list.splits)

lemma handleTranscribe_empty_swarams:
  assumes "audioFile s = Some upload" and "post upload = Inr response"
    and "resp_swarams response = Some []"
  shows "transcriptionResult (fst (handleTranscribe post (s, toasts))) = Some []"
    and "snd (handleTranscribe post (s, toasts)) = toasts @
           [ToastSuccess ''Transcription completed, but no swarams were detected in the audio.'']"
  using assms
  by (simp_all add: handleTranscribe_def Let_def setTranscribing_def
      setTranscriptionProgress_def setTranscriptionResult_def setRaagaInfo_def setLyrics_def
      split: option.splits)

lemma handleTranscribe_raaga_absent:
  assumes "audioFile s = Some upload" and "post upload = Inr response"
    and "resp_raaga response = None"
  shows "raagaInfo (fst (handleTranscribe post (s, toasts))) = raagaInfo s"
  using assms
  by (simp add: handleTranscribe_def Let_def setTranscribing_def
      setTranscriptionProgress_def setTranscriptionResult_def setRaagaInfo_def setLyrics_def
      split: option.splits)

text \<open>
  What holds of the frontend for a successful response: \<open>handleTranscribe\<close> reports
  success and never an error; a returned empty swaram list is stored, so \<open>SwaramDisplay\<close>
  shows its placeholder and the success message says that no swarams were detected; and
  after a response without a raaga match the store's raaga info is what it was before the
  request.
\<close>

lemma handleTranscribe_successful_response:
  assumes "audioFile s = Some upload" and "post upload = Inr response"
  shows "(\<exists>msg. snd (handleTranscribe post (s, toasts)) = toasts @ [ToastSuccess msg])
       \<and> (resp_swarams response = Some [] \<longrightarrow>
            SwaramDisplay (fst (handleTranscribe post (s, toasts)))
              = Placeholder ''Transcribed swarams will appear here''
          \<and> snd (handleTranscribe post (s, toasts)) = toasts @
              [ToastSuccess ''Transcription completed, but no swarams were detected in the audio.''])
       \<and> (resp_raaga response = None \<longrightarrow>
            RaagaInfoDisplay (fst (handleTranscribe post (s, toasts))) = RaagaInfoDisplay s)"
proof -
  let ?after = "fst (handleTranscribe post (s, toasts))"
  have toast: "\<exists>msg. snd (handleTranscribe post (s, toasts)) = toasts @ [ToastSuccess msg]"
    using assms by (rule handleTranscribe_success_toast)
  have swarams: "resp_swarams response = Some [] \<longrightarrow>
            SwaramDisplay ?after = Placeholder ''Transcribed swarams will appear here''
          \<and> snd (handleTranscribe post (s, toasts)) = toasts @
              [ToastSuccess ''Transcription completed, but no swarams were detected in the audio.'']"
    using assms handleTranscribe_empty_swarams
      [where s = s and upload = upload and post = post and response = response and toasts = toasts]
    by (simp add: SwaramDisplay_placeholder_iff)
  have raaga: "resp_raaga response = None \<longrightarrow> RaagaInfoDisplay ?after = RaagaInfoDisplay s"
    using assms handleTranscribe_raaga_absent
      [where s = s and upload = upload and post = post and response = response and toasts = toasts]
    by (simp add: RaagaInfoDisplay_def)
  show ?thesis
    using toast swarams raaga by blast
qed

text \<open>
  C8. The claim fails on the code. The store holds the raaga of an earlier transcription
  and a second file is uploaded; the answer for this silent recording has an empty swaram
  list and no raaga match. \<open>handleTranscribe\<close> skips \<open>setRaagaInfo\<close> for the missing
  raaga, so the earlier raaga stays in the store: \<open>RaagaInfoDisplay\<close> shows the raaga card of
  the earlier recording, not the placeholder, while \<open>SwaramDisplay\<close> shows its placeholder
  and the toast reports success.
\<close>

theorem handleTranscribe_keeps_stale_raaga:
  "resp_raaga silent_response = None
   \<and> resp_swarams silent_response = Some []
   \<and> audioFile store_after_first_transcription = Some second_upload
   \<and> RaagaInfoDisplay
       (fst (handleTranscribe (\<lambda>file. Inr silent_response) (store_after_first_transcription, [])))
       = RaagaCard mayamalavagowla_info
   \<and> RaagaInfoDisplay
       (fst (handleTranscribe (\<lambda>file. Inr silent_response) (store_after_first_transcription, [])))
       \<noteq> Placeholder ''Raaga information will appear after transcription''
   \<and> SwaramDisplay
       (fst (handleTranscribe (\<lambda>file. Inr silent_response) (store_after_first_transcription, [])))
       = Placeholder ''Transcribed swarams will appear here''
   \<and> snd (handleTranscribe (\<lambda>file. Inr silent_response) (store_after_first_transcription, []))
       = [ToastSuccess ''Transcription completed, but no swarams were detected in the audio.'']"
  by (simp add: handleTranscribe_def Let_def RaagaInfoDisplay_def SwaramDisplay_def
      store_after_first_transcription_def silent_response_def initial_state_def
      setTranscribing_def setTranscriptionProgress_def setTranscriptionResult_def
      setRaagaInfo_def setAudioUrl_def setAudioFile_def)

section \<open>The store's reset action\<close>

text \<open>
  C9. Whatever the store held before, \<open>reset\<close> leaves the initial state: each of the ten
  fields has its initial value afterwards, so the result does not depend on the state
  before.
\<close>

theorem reset_restores_initial_state:
  "reset s = initial_state
   \<and> audioFile (reset s) = None \<and> audioUrl (reset s) = None
   \<and> isTranscribing (reset s) = False \<and> transcriptionProgress (reset s) = 0
   \<and> transcriptionResult (reset s) = None \<and> raagaInfo (reset s) = None
   \<and> lyrics (reset s) = None \<and> currentTime (reset s) = 0
   \<and> isPlaying (reset s) = False \<and> duration (reset s) = 0"
  by (simp add: reset_def initial_state_def)

theorem reset_restores_initial_state_witness:
  "raagaInfo store_after_first_transcription = Some mayamalavagowla_info
   \<and> reset store_after_first_transcription = initial_state
   \<and> raagaInfo (reset store_after_first_transcription) = None"
  using reset_restores_initial_state [of store_after_first_transcription]
  by (simp add: store_after_first_transcription_def setRaagaInfo_def initial_state_def)

section \<open>The skip controls\<close>

text \<open>
  C10, as amended. With a playback time \<open>t \<ge> 0\<close> and a stored duration \<open>d \<ge> 0\<close>,
  \<open>skipBackward\<close> sets the time to \<open>max(0, t - 5)\<close>, which lies in \<open>[0, t]\<close> and so in
  \<open>[0, d]\<close> whenever \<open>t \<le> d\<close>; \<open>skipForward\<close> sets it to \<open>min(d, t + 5)\<close>, which lies in
  \<open>[0, d]\<close>. Without an audio element neither does anything.
\<close>

theorem skip_controls_bounds:
  assumes "0 \<le> el_currentTime audio" and "0 \<le> duration store"
  shows "\<exists>b f. skipBackward (Some audio) = Some b \<and> skipForward store (Some audio) = Some f
           \<and> el_currentTime b = max 0 (el_currentTime audio - 5)
           \<and> el_currentTime f = min (duration store) (el_currentTime audio + 5)
           \<and> 0 \<le> el_currentTime b \<and> el_currentTime b \<le> el_currentTime audio
           \<and> (el_currentTime audio \<le> duration store \<longrightarrow> el_currentTime b \<le> duration store)
           \<and> 0 \<le> el_currentTime f \<and> el_currentTime f \<le> duration store
           \<and> skipBackward None = None \<and> skipForward store None = None"
  using assms by (simp add: skipBackward_def skipForward_def)

theorem skip_controls_bounds_witness:
  "0 \<le> el_currentTime \<lparr>el_currentTime = 3\<rparr> \<and> 0 \<le> duration (setDuration 10 initial_state)
   \<and> skipBackward (Some \<lparr>el_currentTime = 3\<rparr>) = Some \<lparr>el_currentTime = 0\<rparr>
   \<and> skipForward (setDuration 10 initial_state) (Some \<lparr>el_currentTime = 3\<rparr>)
       = Some \<lparr>el_currentTime = 8\<rparr>"
  using skip_controls_bounds [of "\<lparr>el_currentTime = 3\<rparr>" "setDuration 10 initial_state"]
  by (simp add: skipBackward_def skipForward_def setDuration_def initial_state_def)

text \<open>
  With \<open>t = 20\<close> and a stored duration \<open>d = 10\<close>, both non-negative, \<open>skipBackward\<close>
  leaves the time at 15, beyond \<open>d\<close>.
\<close>

theorem skipBackward_beyond_duration_counterexample:
  "0 \<le> el_currentTime \<lparr>el_currentTime = 20\<rparr> \<and> 0 \<le> duration (setDuration 10 initial_state)
   \<and> skipBackward (Some \<lparr>el_currentTime = 20\<rparr>) = Some \<lparr>el_currentTime = 15\<rparr>
   \<and> \<not> (15 \<le> duration (setDuration 10 initial_state))"
  by (simp add: skipBackward_def setDuration_def initial_state_def)

section \<open>The Raaga Matcher\<close>

lemma set_first_occurrences: "set (first_occurrences seen xs) = set seen \<union> set xs"
  by (induction xs arbitrary: seen) auto

lemma observed_degrees_nonempty:
  assumes "ns \<noteq> []"
  shows "observed_degrees ns \<noteq> []"
proof -
  from assms have "set (map swaram ns) \<noteq> {}" by simp
  then have "set (observed_degrees ns) \<noteq> {}"
    by (simp add: observed_degrees_def set_first_occurrences)
  then show ?thesis by auto
qed

lemma overlapScore_total:
  assumes "observed \<noteq> []"
  shows "\<exists>ov. overlapScore observed cand = Inr ov"
proof -
  let ?declared = "declared_degrees cand"
  let ?foreign = "length (filter (\<lambda>d. d \<notin> set ?declared) observed)"
  have "0 < length ?declared + ?foreign"
  proof (cases "?declared = []")
    case True
    then have "filter (\<lambda>d. d \<notin> set ?declared) observed = observed" by simp
    with assms show ?thesis by simp
  next
    case False
    then show ?thesis by simp
  qed
  then have "real (length ?declared + ?foreign) \<noteq> 0"
    by (simp del: of_nat_add)
  then show ?thesis
    by (simp add: overlapScore_def py_div_def Let_def del: of_nat_add)
qed

lemma lcs_ratio_total:
  assumes "observed \<noteq> []"
  shows "\<exists>r. lcs_ratio observed pattern = Inr r"
  using assms by (simp add: lcs_ratio_def py_div_def)

lemma patternScore_total:
  assumes "observed \<noteq> []"
  shows "\<exists>p. patternScore observed cand = Inr p"
proof -
  obtain up where "lcs_ratio observed (cand_arohana cand) = Inr up"
    using lcs_ratio_total [OF assms] by blast
  moreover obtain down where "lcs_ratio observed (rev (cand_avarohana cand)) = Inr down"
    using lcs_ratio_total [OF assms] by blast
  ultimately show ?thesis by (simp add: patternScore_def)
qed

lemma combinedScore_total:
  assumes "observed \<noteq> []"
  shows "\<exists>ov pat. overlapScore observed cand = Inr ov \<and> patternScore observed cand = Inr pat
           \<and> combinedScore observed cand = Inr (6/10 * ov + 4/10 * pat)"
proof -
  obtain ov where "overlapScore observed cand = Inr ov"
    using overlapScore_total [OF assms] by blast
  moreover obtain pat where "patternScore observed cand = Inr pat"
    using patternScore_total [OF assms] by blast
  ultimately show ?thesis by (simp add: combinedScore_def)
qed

text \<open>
  The pass over the catalog never fails on a non-empty observation. It returns nothing only
  for an empty catalog with nothing to start from; what it returns otherwise is the
  starting candidate or a candidate of the catalog with its own score, and no score of the
  catalog, nor the starting score, is greater.
\<close>

lemma select_best_spec:
  assumes "observed \<noteq> []"
  shows "\<exists>r. select_best observed best cands = Inr r
           \<and> (r = None \<longrightarrow> best = None \<and> cands = [])
           \<and> (\<forall>c s. r = Some (c, s) \<longrightarrow>
                 (best = Some (c, s) \<or> (c \<in> set cands \<and> combinedScore observed c = Inr s))
               \<and> (\<forall>b bs. best = Some (b, bs) \<longrightarrow> bs \<le> s)
               \<and> (\<forall>c'\<in>set cands. \<forall>s'. combinedScore observed c' = Inr s' \<longrightarrow> s' \<le> s))"
proof (induction cands arbitrary: best)
  case Nil
  show ?case by (cases best) auto
next
  case (Cons cand rest)
  obtain score where sc: "combinedScore observed cand = Inr score"
    using combinedScore_total [OF assms] by blast
  let ?best' = "case best of None \<Rightarrow> Some (cand, score)
                | Some (b, bs) \<Rightarrow> if score > bs then Some (cand, score) else Some (b, bs)"
  obtain r where r: "select_best observed ?best' rest = Inr r"
    and rnone: "r = None \<longrightarrow> ?best' = None \<and> rest = []"
    and rsome: "\<forall>c s. r = Some (c, s) \<longrightarrow>
                 (?best' = Some (c, s) \<or> (c \<in> set rest \<and> combinedScore observed c = Inr s))
               \<and> (\<forall>b bs. ?best' = Some (b, bs) \<longrightarrow> bs \<le> s)
               \<and> (\<forall>c'\<in>set rest. \<forall>s'. combinedScore observed c' = Inr s' \<longrightarrow> s' \<le> s)"
    using Cons.IH [of ?best'] by blast
  have step: "select_best observed best (cand # rest) = Inr r"
    using sc r by simp
  have "r \<noteq> None"
    using rnone by (auto split: option.splits if_splits)
  then obtain c s where cs: "r = Some (c, s)" by (cases r) auto
  from rsome cs
  have src: "?best' = Some (c, s) \<or> (c \<in> set rest \<and> combinedScore observed c = Inr s)"
    and above: "\<forall>b bs. ?best' = Some (b, bs) \<longrightarrow> bs \<le> s"
    and others: "\<forall>c'\<in>set rest. \<forall>s'. combinedScore observed c' = Inr s' \<longrightarrow> s' \<le> s"
    by blast+
  have score_le: "score \<le> s"
    using above by (cases best) (auto split: if_splits)
  have best_le: "\<forall>b bs. best = Some (b, bs) \<longrightarrow> bs \<le> s"
    using above by (cases best) (auto split: if_splits)
  have origin: "best = Some (c, s) \<or> (c \<in> set (cand # rest) \<and> combinedScore observed c = Inr s)"
    using src sc by (cases best) (auto split: if_splits)
  have all_le: "\<forall>c'\<in>set (cand # rest). \<forall>s'. combinedScore observed c' = Inr s' \<longrightarrow> s' \<le> s"
    using others score_le sc by auto
  show ?case
    using step cs origin best_le all_le by simp
qed

text \<open>
  C2. For a non-empty note sequence every candidate gets the score
  \<open>0.6 * overlapScore + 0.4 * patternScore\<close>. When \<open>detectRaaga\<close> reports a match, it is a
  candidate of the catalog with its own score as confidence, that score is at least 0.30,
  and no candidate of the catalog scores higher. It reports no match exactly when every
  candidate scores below 0.30. It always returns one or the other.
\<close>

theorem detectRaaga_best_above_threshold:
  assumes "ns \<noteq> []"
  shows "(\<forall>cand. \<exists>ov pat. overlapScore (observed_degrees ns) cand = Inr ov
            \<and> patternScore (observed_degrees ns) cand = Inr pat
            \<and> combinedScore (observed_degrees ns) cand = Inr (6/10 * ov + 4/10 * pat))
       \<and> (\<forall>m. detectRaaga catalog ns = Inr (Some m) \<longrightarrow>
            (\<exists>cand\<in>set catalog. \<exists>score.
                combinedScore (observed_degrees ns) cand = Inr score
              \<and> m = to_match cand score \<and> 3/10 \<le> score
              \<and> (\<forall>c'\<in>set catalog. \<forall>s'.
                    combinedScore (observed_degrees ns) c' = Inr s' \<longrightarrow> s' \<le> score)))
       \<and> (detectRaaga catalog ns = Inr None \<longleftrightarrow>
            (\<forall>c\<in>set catalog. \<forall>s. combinedScore (observed_degrees ns) c = Inr s \<longrightarrow> s < 3/10))
       \<and> (\<exists>r. detectRaaga catalog ns = Inr r)"
proof -
  let ?obs = "observed_degrees ns"
  have obs: "?obs \<noteq> []" using assms by (rule observed_degrees_nonempty)
  have scores: "\<forall>cand. \<exists>ov pat. overlapScore ?obs cand = Inr ov
            \<and> patternScore ?obs cand = Inr pat
            \<and> combinedScore ?obs cand = Inr (6/10 * ov + 4/10 * pat)"
    using combinedScore_total [OF obs] by blast
  obtain r where r: "select_best ?obs None catalog = Inr r"
    and rnone: "r = None \<longrightarrow> catalog = []"
    and rsome: "\<forall>c s. r = Some (c, s) \<longrightarrow>
                 (c \<in> set catalog \<and> combinedScore ?obs c = Inr s)
               \<and> (\<forall>c'\<in>set catalog. \<forall>s'. combinedScore ?obs c' = Inr s' \<longrightarrow> s' \<le> s)"
    using select_best_spec [OF obs, of None catalog] by auto
  have rest: "(\<forall>m. detectRaaga catalog ns = Inr (Some m) \<longrightarrow>
            (\<exists>cand\<in>set catalog. \<exists>score.
                combinedScore ?obs cand = Inr score
              \<and> m = to_match cand score \<and> 3/10 \<le> score
              \<and> (\<forall>c'\<in>set catalog. \<forall>s'. combinedScore ?obs c' = Inr s' \<longrightarrow> s' \<le> score)))
       \<and> (detectRaaga catalog ns = Inr None \<longleftrightarrow>
            (\<forall>c\<in>set catalog. \<forall>s. combinedScore ?obs c = Inr s \<longrightarrow> s < 3/10))
       \<and> (\<exists>r. detectRaaga catalog ns = Inr r)"
  proof (cases r)
    case None
    with rnone have "catalog = []" by simp
    with assms show ?thesis by (simp add: detectRaaga_def)
  next
    case (Some cs)
    obtain c s where cs: "cs = (c, s)" by (cases cs)
    from rsome Some cs have c: "c \<in> set catalog" "combinedScore ?obs c = Inr s"
      and mx: "\<forall>c'\<in>set catalog. \<forall>s'. combinedScore ?obs c' = Inr s' \<longrightarrow> s' \<le> s"
      by auto
    show ?thesis
    proof (cases "3/10 \<le> s")
      case True
      have d: "detectRaaga catalog ns = Inr (Some (to_match c s))"
        using assms r Some cs True by (simp add: detectRaaga_def)
      have "\<not> (\<forall>c\<in>set catalog. \<forall>s. combinedScore ?obs c = Inr s \<longrightarrow> s < 3/10)"
        using c True by force
      with d c mx True show ?thesis by auto
    next
      case False
      have d: "detectRaaga catalog ns = Inr None"
        using assms r Some cs False by (simp add: detectRaaga_def)
      have "\<forall>c\<in>set catalog. \<forall>s. combinedScore ?obs c = Inr s \<longrightarrow> s < 3/10"
        using mx False by force
      with d show ?thesis by simp
    qed
  qed
  from scores rest show ?thesis by blast
qed

lemma detectRaaga_ascent:
  "detectRaaga [mayamalavagowla] (ascent_notes oct)
     = Inr (Some (to_match mayamalavagowla (19/20)))"
  by (simp add: detectRaaga_def observed_degrees_def ascent_notes_def held_note_def
      mayamalavagowla_def combinedScore_def overlapScore_def patternScore_def lcs_ratio_def
      py_div_def declared_degrees_def Let_def)

theorem detectRaaga_best_above_threshold_witness:
  "ascent_notes Madhya \<noteq> []
   \<and> detectRaaga [mayamalavagowla] (ascent_notes Madhya)
       = Inr (Some (to_match mayamalavagowla (19/20)))
   \<and> combinedScore (observed_degrees (ascent_notes Madhya)) mayamalavagowla = Inr (19/20)
   \<and> (3/10 :: real) \<le> 19/20"
proof -
  have ne: "ascent_notes Madhya \<noteq> []" by (simp add: ascent_notes_def)
  have inj: "to_match mayamalavagowla x = to_match mayamalavagowla y \<longleftrightarrow> x = y" for x y
    by (simp add: to_match_def)
  show ?thesis
    using detectRaaga_best_above_threshold [OF ne, of "[mayamalavagowla]"] ne
      detectRaaga_ascent [of Madhya]
    by (auto simp: inj)
qed

text \<open>
  C5. \<open>detectRaaga\<close> answers the empty note sequence with no match, and it returns a
  value, a match or no match, for every note sequence and every catalog: no division it
  makes has a zero denominator.
\<close>

theorem detectRaaga_total:
  "detectRaaga catalog [] = Inr None \<and> (\<exists>r. detectRaaga catalog ns = Inr r)"
proof
  show "detectRaaga catalog [] = Inr None" by (simp add: detectRaaga_def)
next
  show "\<exists>r. detectRaaga catalog ns = Inr r"
  proof (cases "ns = []")
    case True
    then show ?thesis by (simp add: detectRaaga_def)
  next
    case False
    then have "observed_degrees ns \<noteq> []" by (rule observed_degrees_nonempty)
    then obtain r where "select_best (observed_degrees ns) None catalog = Inr r"
      using select_best_spec by blast
    with False show ?thesis
      by (simp add: detectRaaga_def split: option.splits prod.splits)
  qed
qed

theorem detectRaaga_total_witness:
  "detectRaaga [mayamalavagowla] [] = Inr None
   \<and> detectRaaga [mayamalavagowla] api_example_notes = Inr None"
proof -
  have "detectRaaga [mayamalavagowla] api_example_notes = Inr None"
    by (simp add: detectRaaga_def observed_degrees_def api_example_notes_def
        mayamalavagowla_def combinedScore_def overlapScore_def patternScore_def lcs_ratio_def
        py_div_def declared_degrees_def Let_def)
  then show ?thesis
    using detectRaaga_total [of "[mayamalavagowla]" api_example_notes] by simp
qed

text \<open>
  C7. \<open>detectRaaga\<close> reads nothing of a note but its scale degree: two note sequences with
  the same scale degrees in the same order get the same answer, whatever their octaves (and
  times, ornaments and confidences) are.
\<close>

theorem detectRaaga_ignores_octave:
  assumes "map swaram ns1 = map swaram ns2"
  shows "detectRaaga catalog ns1 = detectRaaga catalog ns2"
proof -
  from assms have "length ns1 = length ns2" by (rule map_eq_imp_length_eq)
  then have "ns1 = [] \<longleftrightarrow> ns2 = []" by auto
  moreover from assms have "observed_degrees ns1 = observed_degrees ns2"
    by (simp add: observed_degrees_def)
  ultimately show ?thesis by (simp add: detectRaaga_def)
qed

theorem detectRaaga_ignores_octave_witness:
  "map swaram (ascent_notes Mandra) = map swaram (ascent_notes Tara)
   \<and> map octave (ascent_notes Mandra) \<noteq> map octave (ascent_notes Tara)
   \<and> detectRaaga [mayamalavagowla] (ascent_notes Mandra)
       = detectRaaga [mayamalavagowla] (ascent_notes Tara)"
proof -
  have same: "map swaram (ascent_notes Mandra) = map swaram (ascent_notes Tara)"
    by (simp add: ascent_notes_def held_note_def)
  have differ: "map octave (ascent_notes Mandra) \<noteq> map octave (ascent_notes Tara)"
    by (simp add: ascent_notes_def held_note_def)
  show ?thesis
    using detectRaaga_ignores_octave [OF same, of "[mayamalavagowla]"] same differ by simp
qed

end
